theory Spec2Isabelle
  imports Main
begin

section \<open>Strings\<close>

text \<open>
  A JavaScript string is modelled as a \<^typ>\<open>string\<close>: one \<^typ>\<open>char\<close> per code unit, which
  covers the code units below 256 (ASCII and Latin-1).  A request field that may be absent
  (\<^verbatim>\<open>undefined\<close>) is a \<^typ>\<open>string option\<close>.
\<close>

definition code_unit :: "char \<Rightarrow> nat" where
  "code_unit c = of_char c"

definition is_digit :: "char \<Rightarrow> bool" where
  \<comment> \<open>the class \<^verbatim>\<open>\d\<close>\<close>
  "is_digit c = (48 \<le> code_unit c \<and> code_unit c \<le> 57)"

definition is_lower :: "char \<Rightarrow> bool" where
  \<comment> \<open>the class \<^verbatim>\<open>[a-z]\<close>\<close>
  "is_lower c = (97 \<le> code_unit c \<and> code_unit c \<le> 122)"

definition is_upper :: "char \<Rightarrow> bool" where
  \<comment> \<open>the class \<^verbatim>\<open>[A-Z]\<close>\<close>
  "is_upper c = (65 \<le> code_unit c \<and> code_unit c \<le> 90)"

definition is_special :: "char \<Rightarrow> bool" where
  \<comment> \<open>the class \<^verbatim>\<open>[!@#$%^&*]\<close>\<close>
  "is_special c = (code_unit c \<in> set [33, 64, 35, 36, 37, 94, 38, 42])"

definition is_line_terminator :: "char \<Rightarrow> bool" where
  \<comment> \<open>what \<^verbatim>\<open>.\<close> refuses to match: LF and CR (U+2028 and U+2029 are beyond the model's range)\<close>
  "is_line_terminator c = (code_unit c = 10 \<or> code_unit c = 13)"

definition first_line :: "string \<Rightarrow> string" where
  \<comment> \<open>the longest prefix \<^verbatim>\<open>.*\<close> can match at position 0\<close>
  "first_line s = takeWhile (\<lambda>c. \<not> is_line_terminator c) s"

definition passwordRegex_test :: "string \<Rightarrow> bool" where
  \<comment> \<open>\<^verbatim>\<open>/^(?=.*\d)(?=.*[a-z])(?=.*[A-Z])(?=.*[!@#$%^&*])(?=.{8,})/.test(s)\<close>:
      five lookaheads at position 0, none of which can step over a line terminator\<close>
  "passwordRegex_test s =
     (list_ex is_digit (first_line s) \<and> list_ex is_lower (first_line s) \<and>
      list_ex is_upper (first_line s) \<and> list_ex is_special (first_line s) \<and>
      8 \<le> length (first_line s))"

definition passwordRegex_test_field :: "string option \<Rightarrow> bool" where
  \<comment> \<open>\<^verbatim>\<open>test\<close> converts its argument to a string first: an absent field is tested as
      the text \<^verbatim>\<open>undefined\<close>\<close>
  "passwordRegex_test_field f =
     (case f of None \<Rightarrow> passwordRegex_test ''undefined'' | Some s \<Rightarrow> passwordRegex_test s)"

definition to_lower_unit :: "char \<Rightarrow> char" where
  \<comment> \<open>\<^verbatim>\<open>toLowerCase\<close> on one code unit below 256: A-Z, and the Latin-1 capitals except U+00D7\<close>
  "to_lower_unit c =
     (let n = code_unit c
      in if (65 \<le> n \<and> n \<le> 90) \<or> (192 \<le> n \<and> n \<le> 222 \<and> n \<noteq> 215) then char_of (n + 32) else c)"

definition toLowerCase :: "string \<Rightarrow> string" where
  "toLowerCase s = map to_lower_unit s"

definition is_white :: "char \<Rightarrow> bool" where
  \<comment> \<open>white space and line terminators below 256, which \<^verbatim>\<open>trim\<close> strips\<close>
  "is_white c = (code_unit c \<in> set [9, 10, 11, 12, 13, 32, 160])"

definition trim :: "string \<Rightarrow> string" where
  "trim s = rev (dropWhile is_white (rev (dropWhile is_white s)))"

definition falsy :: "string option \<Rightarrow> bool" where
  \<comment> \<open>\<^verbatim>\<open>!x\<close> for a field that is a string or absent\<close>
  "falsy f = (case f of None \<Rightarrow> True | Some s \<Rightarrow> s = [])"

section \<open>Cryptographic values\<close>

text \<open>
  The primitives of \<^verbatim>\<open>bcryptjs\<close>, \<^verbatim>\<open>crypto\<close> and \<^verbatim>\<open>jsonwebtoken\<close> are external libraries.
  They are modelled symbolically, as free constructors: a hash determines its input, two
  different inputs never collide, and a signature made with one secret does not verify with
  another.  The random salt and the random token bytes are inputs of each request.
\<close>

datatype pwfield =
    Plain string                  \<comment> \<open>the \<^verbatim>\<open>password\<close> path holding a plaintext, before the save hook\<close>
  | Bcrypt nat string string      \<comment> \<open>\<^verbatim>\<open>bcrypt.hash(plaintext, cost)\<close> with the salt drawn: cost, salt, plaintext\<close>

fun bcrypt_compare :: "string \<Rightarrow> pwfield \<Rightarrow> bool" where
  "bcrypt_compare candidate (Bcrypt cost salt p) = (candidate = p)"
| "bcrypt_compare candidate (Plain s) = False"

fun bcrypt_hash :: "nat \<Rightarrow> string \<Rightarrow> pwfield \<Rightarrow> pwfield" where
  "bcrypt_hash cost salt (Plain p) = Bcrypt cost salt p"
| "bcrypt_hash cost salt (Bcrypt c s p) = Bcrypt c s p"

datatype digest = Sha256 string
  \<comment> \<open>\<^verbatim>\<open>crypto.createHash('sha256').update(s).digest('hex')\<close>\<close>

datatype wire =
    Jwt string nat int int   \<comment> \<open>a token signed with a secret: secret, payload id, \<^verbatim>\<open>iat\<close>, \<^verbatim>\<open>exp\<close> (seconds)\<close>
  | Raw string               \<comment> \<open>any other text in the place of a token\<close>

section \<open>The User model\<close>

datatype role = RoleUser | RoleAdmin

datatype event_type =
    LOGIN | FAILED_LOGIN | LOGOUT | PASSWORD_CHANGE | PASSWORD_RESET_REQUEST | PASSWORD_RESET
  | EMAIL_CHANGE | ACCOUNT_LOCK | ACCOUNT_UNLOCK | PROFILE_UPDATE | TWO_FACTOR_SETUP
  | TWO_FACTOR_DISABLE

record security_event =
  ev_type :: event_type
  ev_date :: int
  ev_ip :: string

text \<open>
  Times are milliseconds since the epoch, as \<^verbatim>\<open>Date.now()\<close> gives them.  A path that the
  schema does not require is an option.  \<^verbatim>\<open>password\<close> and \<^verbatim>\<open>active\<close> are \<^verbatim>\<open>select: false\<close>:
  in a document read from the store they are \<^const>\<open>None\<close> unless asked for.  The paths that no
  operation of the controller reads or writes (two-factor fields, addresses, creation time)
  are left out.
\<close>

record user =
  uid :: nat
  name :: string
  email :: string
  password :: "pwfield option"
  passwordConfirm :: "string option"
  role :: role
  emailVerified :: bool
  verificationToken :: "digest option"
  verificationExpires :: "int option"
  passwordChangedAt :: "int option"
  passwordResetToken :: "digest option"
  passwordResetExpires :: "int option"
  active :: "bool option"
  lastLogin :: "int option"
  lastLoginIp :: "string option"
  loginAttempts :: int
  accountLocked :: bool
  lockUntil :: "int option"
  securityEvents :: "security_event list"

type_synonym db = "user list"

section \<open>Requests, configuration and responses\<close>

datatype auth_header = AuthHeader string "wire option"
  \<comment> \<open>the \<^verbatim>\<open>Authorization\<close> header split at spaces: element 0, and element 1 when there is one\<close>

record request =
  x_csrf_token :: "string option"        \<comment> \<open>\<^verbatim>\<open>req.headers['x-csrf-token']\<close>\<close>
  xsrf_cookie :: "string option"         \<comment> \<open>\<^verbatim>\<open>req.cookies['XSRF-TOKEN']\<close>\<close>
  authorization :: "auth_header option"
  jwt_cookie :: "wire option"            \<comment> \<open>\<^verbatim>\<open>req.cookies.jwt\<close>\<close>
  x_forwarded_proto :: "string option"
  secure :: bool
  ip :: string
  body_name :: "string option"
  body_email :: "string option"
  body_password :: "string option"
  body_passwordConfirm :: "string option"
  body_currentPassword :: "string option"
  body_newPassword :: "string option"
  params_token :: string                 \<comment> \<open>\<^verbatim>\<open>req.params.token\<close>\<close>
  req_user :: "user option"              \<comment> \<open>\<^verbatim>\<open>req.user\<close>, set by \<^verbatim>\<open>protect\<close>\<close>

record config =
  JWT_SECRET :: string
  JWT_EXPIRES_IN :: int             \<comment> \<open>the span of \<^verbatim>\<open>expiresIn\<close>, in seconds\<close>
  JWT_COOKIE_EXPIRES_IN :: int      \<comment> \<open>days\<close>
  isEmail :: "string \<Rightarrow> bool"       \<comment> \<open>\<^verbatim>\<open>validator.isEmail\<close>, an external library\<close>

datatype tick =
    AtVerification   \<comment> \<open>\<^verbatim>\<open>verificationExpires = Date.now() + ...\<close> in signup\<close>
  | AtLockCheck      \<comment> \<open>\<^verbatim>\<open>user.lockUntil > Date.now()\<close> in login\<close>
  | AtLastLogin      \<comment> \<open>\<^verbatim>\<open>lastLogin: Date.now()\<close>\<close>
  | AtHook           \<comment> \<open>\<^verbatim>\<open>Date.now() - 1000\<close> in the save hook\<close>
  | AtChanged        \<comment> \<open>\<^verbatim>\<open>passwordChangedAt: Date.now()\<close>\<close>
  | AtEvent          \<comment> \<open>the date of a security event\<close>
  | AtResetExpiry    \<comment> \<open>\<^verbatim>\<open>passwordResetExpires = Date.now() + ...\<close>\<close>
  | AtQuery          \<comment> \<open>\<^verbatim>\<open>$gt: Date.now()\<close> in resetPassword\<close>
  | AtLock           \<comment> \<open>\<^verbatim>\<open>lockUntil = Date.now() + ...\<close> in handleFailedLogin\<close>
  | AtSign           \<comment> \<open>the clock \<^verbatim>\<open>jwt.sign\<close> reads for \<^verbatim>\<open>iat\<close>\<close>
  | AtCookie         \<comment> \<open>\<^verbatim>\<open>Date.now()\<close> in the cookie options\<close>
  | AtVerify         \<comment> \<open>the clock \<^verbatim>\<open>jwt.verify\<close> reads\<close>

text \<open>
  What a request draws from outside while it is handled: \<open>clock e p\<close> is what the clock
  returns when it is read at program point \<open>p\<close>, \<open>randomBytes e\<close> the hex text of
  \<^verbatim>\<open>crypto.randomBytes(32)\<close>, \<open>salt e\<close> the salt \<^verbatim>\<open>bcrypt.hash\<close> draws.
\<close>

record env =
  clock :: "tick \<Rightarrow> int"
  randomBytes :: string
  salt :: string

datatype json =
    JString string
  | JNumber int
  | JBool bool
  | JDate int
  | JHash pwfield
  | JDigest digest
  | JArray "json list"
  | JObject "(string \<times> json) list"

datatype message =
    Text string
  | AccountLockedUntil int
      \<comment> \<open>the template \<^verbatim>\<open>Account locked. Please try again after ${...toLocaleString()}\<close>\<close>

datatype body =
    Error message                        \<comment> \<open>\<^verbatim>\<open>{status: 'error', message}\<close>\<close>
  | Success                              \<comment> \<open>\<^verbatim>\<open>{status: 'success'}\<close>\<close>
  | SuccessMessage string                \<comment> \<open>\<^verbatim>\<open>{status: 'success', message}\<close>\<close>
  | Session wire "(string \<times> json) list"   \<comment> \<open>\<^verbatim>\<open>{status: 'success', token, data: {user}}\<close>\<close>

record cookie =
  ck_name :: string
  ck_value :: wire
  ck_expires :: int
  ck_httpOnly :: bool
  ck_secure :: bool

record response =
  status :: nat
  body :: body
  set_cookies :: "cookie list"

definition json_error :: "nat \<Rightarrow> string \<Rightarrow> response" where
  \<comment> \<open>\<^verbatim>\<open>res.status(n).json({status: 'error', message: m})\<close>\<close>
  "json_error n m = \<lparr>status = n, body = Error (Text m), set_cookies = []\<rparr>"

datatype step = Next request | Done response
  \<comment> \<open>a middleware either calls \<^verbatim>\<open>next()\<close> or answers\<close>

section \<open>The store\<close>

text \<open>
  The collection is the list of its documents in insertion order.  Every \<^verbatim>\<open>find...\<close> query
  passes the pre-find hook, which adds \<^verbatim>\<open>{active: {$ne: false}}\<close>.  A query casts its
  \<^verbatim>\<open>email\<close> condition with the setters of the schema path (\<^verbatim>\<open>lowercase\<close>, \<^verbatim>\<open>trim\<close>).
\<close>

definition normalize_email :: "string \<Rightarrow> string" where
  "normalize_email s = toLowerCase (trim s)"

definition visible :: "user \<Rightarrow> bool" where
  "visible s = (active s \<noteq> Some False)"

definition project :: "bool \<Rightarrow> user \<Rightarrow> user" where
  \<comment> \<open>the document a query returns: \<^verbatim>\<open>password\<close> only with \<^verbatim>\<open>select('+password')\<close>\<close>
  "project with_password s =
     s\<lparr>password := (if with_password then password s else None), active := None\<rparr>"

definition findOne_email :: "bool \<Rightarrow> db \<Rightarrow> string option \<Rightarrow> user option" where
  \<comment> \<open>\<^verbatim>\<open>User.findOne({email})\<close>; an absent condition value matches no document,
      since every document has an email\<close>
  "findOne_email with_password db e =
     (case e of
        None \<Rightarrow> None
      | Some a \<Rightarrow>
          map_option (project with_password)
            (find (\<lambda>s. visible s \<and> email s = normalize_email a) db))"

definition findById :: "bool \<Rightarrow> db \<Rightarrow> nat \<Rightarrow> user option" where
  "findById with_password db i =
     map_option (project with_password) (find (\<lambda>s. visible s \<and> uid s = i) db)"

definition unexpired :: "int option \<Rightarrow> int \<Rightarrow> bool" where
  \<comment> \<open>\<^verbatim>\<open>{$gt: now}\<close> on a date path\<close>
  "unexpired x now = (case x of None \<Rightarrow> False | Some t \<Rightarrow> now < t)"

definition findOne_reset :: "db \<Rightarrow> digest \<Rightarrow> int \<Rightarrow> user option" where
  \<comment> \<open>\<^verbatim>\<open>User.findOne({passwordResetToken: h, passwordResetExpires: {$gt: now}})\<close>\<close>
  "findOne_reset db h now =
     map_option (project False)
       (find (\<lambda>s. visible s \<and> passwordResetToken s = Some h \<and>
                  unexpired (passwordResetExpires s) now) db)"

definition merged :: "user \<Rightarrow> user \<Rightarrow> user" where
  \<comment> \<open>the stored document \<open>s\<close> after document \<open>d\<close> was saved over it: the document's paths
      replace the stored ones; a path that was not selected and not set keeps its stored
      value\<close>
  "merged d s =
     d\<lparr>password := (if password d = None then password s else password d),
       active := (if active d = None then active s else active d)\<rparr>"

definition persist :: "db \<Rightarrow> user \<Rightarrow> db" where
  \<comment> \<open>the write of \<^verbatim>\<open>doc.save()\<close> for a document read from the store.  \<^verbatim>\<open>_id\<close> is the primary
      key, so at most one stored document matches.\<close>
  "persist db d = map (\<lambda>s. if uid s = uid d then merged d s else s) db"

definition findByIdAndUpdate :: "db \<Rightarrow> nat \<Rightarrow> (user \<Rightarrow> user) \<Rightarrow> db" where
  \<comment> \<open>\<^verbatim>\<open>User.findByIdAndUpdate(id, update)\<close>, which passes the pre-find hook too\<close>
  "findByIdAndUpdate db i f = map (\<lambda>s. if uid s = i \<and> visible s then f s else s) db"

definition new_id :: "db \<Rightarrow> nat" where
  \<comment> \<open>a fresh \<^verbatim>\<open>_id\<close>\<close>
  "new_id db = Suc (fold max (map uid db) 0)"

definition validate :: "config \<Rightarrow> user \<Rightarrow> bool" where
  \<comment> \<open>the schema validators that run before a save: \<^verbatim>\<open>required\<close> and \<^verbatim>\<open>maxlength\<close> on the
      name, \<^verbatim>\<open>required\<close> and \<^verbatim>\<open>isEmail\<close> on the email, \<^verbatim>\<open>minlength\<close> on a password that was set,
      \<^verbatim>\<open>required\<close> and \<^verbatim>\<open>el === this.password\<close> on passwordConfirm\<close>
  "validate cfg d =
     (name d \<noteq> [] \<and> length (name d) \<le> 50 \<and>
      email d \<noteq> [] \<and> isEmail cfg (email d) \<and>
      (case password d of Some (Plain p) \<Rightarrow> 8 \<le> length p | _ \<Rightarrow> True) \<and>
      (case passwordConfirm d of
         None \<Rightarrow> False
       | Some c \<Rightarrow> c \<noteq> [] \<and> password d = Some (Plain c)))"

definition pre_save :: "env \<Rightarrow> bool \<Rightarrow> bool \<Rightarrow> bool \<Rightarrow> user \<Rightarrow> user" where
  \<comment> \<open>the two \<^verbatim>\<open>pre('save')\<close> hooks, given \<^verbatim>\<open>isModified('password')\<close>,
      \<^verbatim>\<open>isModified('email')\<close> and \<^verbatim>\<open>isNew\<close>\<close>
  "pre_save e modified_password modified_email isNew d =
     (let d1 = (if \<not> modified_password then d
                else let h = d\<lparr>password := map_option (bcrypt_hash 12 (salt e)) (password d),
                                passwordConfirm := None\<rparr>
                     in if \<not> isNew then h\<lparr>passwordChangedAt := Some (clock e AtHook - 1000)\<rparr>
                        else h)
      in if modified_email \<and> \<not> isNew then d1\<lparr>emailVerified := False\<rparr> else d1)"

section \<open>Model methods\<close>

definition save_novalidate :: "env \<Rightarrow> db \<Rightarrow> user \<Rightarrow> user \<times> db" where
  \<comment> \<open>\<^verbatim>\<open>doc.save({validateBeforeSave: false})\<close> where neither password nor email was set\<close>
  "save_novalidate e db d = (let d' = pre_save e False False False d in (d', persist db d'))"

definition save_validated :: "config \<Rightarrow> env \<Rightarrow> db \<Rightarrow> user \<Rightarrow> (user \<times> db) option" where
  \<comment> \<open>\<^verbatim>\<open>doc.save()\<close> after the password was set; \<^const>\<open>None\<close> when validation throws\<close>
  "save_validated cfg e db d =
     (if \<not> validate cfg d then None
      else let d' = pre_save e True False False d in Some (d', persist db d'))"

definition User_create ::
  "config \<Rightarrow> env \<Rightarrow> db \<Rightarrow> string option \<Rightarrow> string option \<Rightarrow> string \<Rightarrow> string option \<Rightarrow>
   (user \<times> db) option" where
  \<comment> \<open>\<^verbatim>\<open>User.create({name, email, password, passwordConfirm, role: 'user'})\<close>: setters and
      defaults, validation, the save hooks, then the insert, which the unique index on
      \<^verbatim>\<open>email\<close> refuses for a duplicate; \<^const>\<open>None\<close> when any of them throws\<close>
  "User_create cfg e db nm em pw pc =
     (case (nm, em) of
        (Some n, Some a) \<Rightarrow>
          (let d = \<lparr>uid = new_id db, name = trim n, email = normalize_email a,
                    password = Some (Plain pw), passwordConfirm = pc, role = RoleUser,
                    emailVerified = False, verificationToken = None,
                    verificationExpires = None, passwordChangedAt = None,
                    passwordResetToken = None, passwordResetExpires = None,
                    active = Some True, lastLogin = None, lastLoginIp = None,
                    loginAttempts = 0, accountLocked = False, lockUntil = None,
                    securityEvents = []\<rparr>
           in if \<not> validate cfg d then None
              else if list_ex (\<lambda>s. email s = email d) db then None
              else let d' = pre_save e True True True d in Some (d', db @ [d']))
      | _ \<Rightarrow> None)"

definition correctPassword :: "string option \<Rightarrow> pwfield option \<Rightarrow> bool option" where
  \<comment> \<open>\<^verbatim>\<open>bcrypt.compare(candidatePassword, userPassword)\<close>, which throws (\<^const>\<open>None\<close>) when an
      argument is not a string\<close>
  "correctPassword candidatePassword userPassword =
     (case (candidatePassword, userPassword) of
        (Some c, Some h) \<Rightarrow> Some (bcrypt_compare c h)
      | _ \<Rightarrow> None)"

definition parseInt_seconds :: "int \<Rightarrow> int" where
  \<comment> \<open>\<^verbatim>\<open>parseInt(t / 1000, 10)\<close> for a time in milliseconds: the quotient cut towards zero\<close>
  "parseInt_seconds t = (if 0 \<le> t then t div 1000 else - ((- t) div 1000))"

definition changedPasswordAfter :: "user \<Rightarrow> int \<Rightarrow> bool" where
  "changedPasswordAfter u JWTTimestamp =
     (case passwordChangedAt u of
        Some t \<Rightarrow> JWTTimestamp < parseInt_seconds t
      | None \<Rightarrow> False)"

definition handleFailedLogin :: "env \<Rightarrow> db \<Rightarrow> user \<Rightarrow> bool \<times> user \<times> db" where
  \<comment> \<open>returns \<^verbatim>\<open>this.accountLocked\<close>, the document as it was left, and the store\<close>
  "handleFailedLogin e db this =
     (let u1 = this\<lparr>loginAttempts := loginAttempts this + 1\<rparr>;
          u2 = (if 5 \<le> loginAttempts u1
                then u1\<lparr>accountLocked := True,
                        lockUntil := Some (clock e AtLock + 30 * 60 * 1000)\<rparr>
                else u1);
          (u3, db') = save_novalidate e db u2
      in (accountLocked u3, u3, db'))"

section \<open>Serialisation\<close>

definition present :: "string \<Rightarrow> json option \<Rightarrow> (string \<times> json) list" where
  \<comment> \<open>a path that is \<^verbatim>\<open>undefined\<close> is left out of the JSON text\<close>
  "present k v = (case v of None \<Rightarrow> [] | Some j \<Rightarrow> [(k, j)])"

fun event_name :: "event_type \<Rightarrow> string" where
  "event_name LOGIN = ''LOGIN''"
| "event_name FAILED_LOGIN = ''FAILED_LOGIN''"
| "event_name LOGOUT = ''LOGOUT''"
| "event_name PASSWORD_CHANGE = ''PASSWORD_CHANGE''"
| "event_name PASSWORD_RESET_REQUEST = ''PASSWORD_RESET_REQUEST''"
| "event_name PASSWORD_RESET = ''PASSWORD_RESET''"
| "event_name EMAIL_CHANGE = ''EMAIL_CHANGE''"
| "event_name ACCOUNT_LOCK = ''ACCOUNT_LOCK''"
| "event_name ACCOUNT_UNLOCK = ''ACCOUNT_UNLOCK''"
| "event_name PROFILE_UPDATE = ''PROFILE_UPDATE''"
| "event_name TWO_FACTOR_SETUP = ''TWO_FACTOR_SETUP''"
| "event_name TWO_FACTOR_DISABLE = ''TWO_FACTOR_DISABLE''"

definition event_toJSON :: "security_event \<Rightarrow> json" where
  "event_toJSON ev =
     JObject [(''type'', JString (event_name (ev_type ev))), (''date'', JDate (ev_date ev)),
              (''ip'', JString (ev_ip ev))]"

definition toJSON :: "user \<Rightarrow> (string \<times> json) list" where
  \<comment> \<open>the document as \<^verbatim>\<open>res.json\<close> writes it, with the virtuals \<^verbatim>\<open>fullName\<close> and \<^verbatim>\<open>id\<close>\<close>
  "toJSON u =
     [(''_id'', JNumber (int (uid u))), (''name'', JString (name u)),
      (''email'', JString (email u))] @
     present ''password'' (map_option JHash (password u)) @
     present ''passwordConfirm'' (map_option JString (passwordConfirm u)) @
     [(''role'', JString (case role u of RoleUser \<Rightarrow> ''user'' | RoleAdmin \<Rightarrow> ''admin'')),
      (''emailVerified'', JBool (emailVerified u))] @
     present ''verificationToken'' (map_option JDigest (verificationToken u)) @
     present ''verificationExpires'' (map_option JDate (verificationExpires u)) @
     present ''passwordChangedAt'' (map_option JDate (passwordChangedAt u)) @
     present ''passwordResetToken'' (map_option JDigest (passwordResetToken u)) @
     present ''passwordResetExpires'' (map_option JDate (passwordResetExpires u)) @
     present ''active'' (map_option JBool (active u)) @
     present ''lastLogin'' (map_option JDate (lastLogin u)) @
     present ''lastLoginIp'' (map_option JString (lastLoginIp u)) @
     [(''loginAttempts'', JNumber (loginAttempts u)),
      (''accountLocked'', JBool (accountLocked u))] @
     present ''lockUntil'' (map_option JDate (lockUntil u)) @
     [(''securityEvents'', JArray (map event_toJSON (securityEvents u))),
      (''fullName'', JString (name u)), (''id'', JNumber (int (uid u)))]"

section \<open>The controller\<close>

definition csrf_ok :: "request \<Rightarrow> bool" where
  \<comment> \<open>the negation of \<^verbatim>\<open>!csrfToken || csrfToken !== req.cookies['XSRF-TOKEN']\<close>\<close>
  "csrf_ok req = (\<not> falsy (x_csrf_token req) \<and> x_csrf_token req = xsrf_cookie req)"

definition signToken :: "config \<Rightarrow> env \<Rightarrow> nat \<Rightarrow> wire" where
  \<comment> \<open>\<^verbatim>\<open>jwt.sign({id}, secret, {expiresIn})\<close>: \<^verbatim>\<open>iat\<close> is the clock in whole seconds\<close>
  "signToken cfg e i =
     Jwt (JWT_SECRET cfg) i (clock e AtSign div 1000)
       (clock e AtSign div 1000 + JWT_EXPIRES_IN cfg)"

definition createSendToken :: "config \<Rightarrow> env \<Rightarrow> user \<Rightarrow> nat \<Rightarrow> request \<Rightarrow> response" where
  "createSendToken cfg e usr statusCode req =
     (let token = signToken cfg e (uid usr);
          cookieOptions =
            \<lparr>ck_name = ''jwt'', ck_value = token,
             ck_expires = clock e AtCookie + JWT_COOKIE_EXPIRES_IN cfg * 24 * 60 * 60 * 1000,
             ck_httpOnly = True,
             ck_secure = (secure req \<or> x_forwarded_proto req = Some ''https'')\<rparr>;
          usr' = usr\<lparr>password := None\<rparr>
      in \<lparr>status = statusCode, body = Session token (toJSON usr'),
          set_cookies = [cookieOptions]\<rparr>)"

definition signup :: "config \<Rightarrow> env \<Rightarrow> request \<Rightarrow> db \<Rightarrow> response \<times> db" where
  "signup cfg e req db =
     (if \<not> csrf_ok req then (json_error 403 ''Invalid CSRF token'', db)
      else
        (case body_password req of
           None \<Rightarrow>
             \<comment> \<open>\<^verbatim>\<open>password.length\<close> throws a TypeError, which the handler catches\<close>
             (json_error 500 ''Error signing up. Please try again later.'', db)
         | Some pw \<Rightarrow>
             if length pw < 8
             then (json_error 400 ''Password must be at least 8 characters long'', db)
             else if \<not> passwordRegex_test pw
             then (json_error 400 ''Password must contain at least one uppercase letter, one lowercase letter, one number, and one special character'', db)
             else if Some pw \<noteq> body_passwordConfirm req
             then (json_error 400 ''Passwords do not match'', db)
             else
               (case findOne_email False db (body_email req) of
                  Some existingUser \<Rightarrow> (json_error 400 ''Email already in use'', db)
                | None \<Rightarrow>
                    (case User_create cfg e db (body_name req) (body_email req) pw
                            (body_passwordConfirm req) of
                       None \<Rightarrow> (json_error 500 ''Error signing up. Please try again later.'', db)
                     | Some (newUser, db1) \<Rightarrow>
                         (let newUser1 =
                                newUser\<lparr>verificationToken := Some (Sha256 (randomBytes e)),
                                        verificationExpires :=
                                          Some (clock e AtVerification + 24 * 60 * 60 * 1000)\<rparr>;
                              (newUser2, db2) = save_novalidate e db1 newUser1
                          in (createSendToken cfg e newUser2 201 req, db2))))))"

definition login :: "config \<Rightarrow> env \<Rightarrow> request \<Rightarrow> db \<Rightarrow> response \<times> db" where
  "login cfg e req db =
     (if \<not> csrf_ok req then (json_error 403 ''Invalid CSRF token'', db)
      else if falsy (body_email req) \<or> falsy (body_password req)
      then (json_error 400 ''Please provide email and password'', db)
      else
        (case findOne_email True db (body_email req) of
           None \<Rightarrow> (json_error 401 ''Incorrect email or password'', db)
         | Some user \<Rightarrow>
             (case correctPassword (body_password req) (password user) of
                None \<Rightarrow> (json_error 500 ''Error logging in. Please try again later.'', db)
              | Some False \<Rightarrow>
                  \<comment> \<open>the source has the comment \<^verbatim>\<open>Increment failed login attempts\<close> here, and no code\<close>
                  (json_error 401 ''Incorrect email or password'', db)
              | Some True \<Rightarrow>
                  if emailVerified user = False
                  then (json_error 401 ''Please verify your email before logging in'', db)
                  else
                    (case (if accountLocked user
                           then (case lockUntil user of
                                   Some t \<Rightarrow> if clock e AtLockCheck < t then Some t else None
                                 | None \<Rightarrow> None)
                           else None) of
                       Some t \<Rightarrow>
                         (\<lparr>status = 401, body = Error (AccountLockedUntil t), set_cookies = []\<rparr>, db)
                     | None \<Rightarrow>
                         (let (user1, db1) =
                                (if accountLocked user
                                 then save_novalidate e db
                                        (user\<lparr>accountLocked := False, loginAttempts := 0\<rparr>)
                                 else (user, db));
                              (user2, db2) = save_novalidate e db1 (user1\<lparr>loginAttempts := 0\<rparr>);
                              db3 = findByIdAndUpdate db2 (uid user2)
                                      (\<lambda>s. s\<lparr>lastLogin := Some (clock e AtLastLogin),
                                              lastLoginIp := Some (ip req)\<rparr>)
                          in (createSendToken cfg e user2 200 req, db3))))))"

definition logout :: "env \<Rightarrow> request \<Rightarrow> response" where
  "logout e req =
     \<lparr>status = 200, body = Success,
      set_cookies =
        [\<lparr>ck_name = ''jwt'', ck_value = Raw ''loggedout'',
          ck_expires = clock e AtCookie + 10 * 1000, ck_httpOnly = True, ck_secure = False\<rparr>]\<rparr>"

definition bearer_token :: "request \<Rightarrow> wire option" where
  \<comment> \<open>the token \<^verbatim>\<open>protect\<close> picks: element 1 of an \<^verbatim>\<open>Authorization\<close> header that starts with
      \<^verbatim>\<open>Bearer\<close>, otherwise the \<^verbatim>\<open>jwt\<close> cookie; \<^const>\<open>None\<close> when \<^verbatim>\<open>!token\<close>\<close>
  "bearer_token req =
     (let token =
            (case authorization req of
               Some (AuthHeader scheme t) \<Rightarrow>
                 if take 6 scheme = ''Bearer'' then t else jwt_cookie req
             | None \<Rightarrow> jwt_cookie req)
      in if token = Some (Raw []) then None else token)"

definition jwt_verify :: "config \<Rightarrow> env \<Rightarrow> wire \<Rightarrow> (nat \<times> int) option" where
  \<comment> \<open>\<^verbatim>\<open>jwt.verify(token, secret)\<close>: the decoded \<^verbatim>\<open>id\<close> and \<^verbatim>\<open>iat\<close>, or \<^const>\<open>None\<close> when it throws
      (not a token, another secret, or \<^verbatim>\<open>exp\<close> reached)\<close>
  "jwt_verify cfg e w =
     (case w of
        Jwt secret i issued expires \<Rightarrow>
          if secret = JWT_SECRET cfg \<and> clock e AtVerify div 1000 < expires
          then Some (i, issued) else None
      | Raw t \<Rightarrow> None)"

definition protect :: "config \<Rightarrow> env \<Rightarrow> request \<Rightarrow> db \<Rightarrow> step" where
  "protect cfg e req db =
     (case bearer_token req of
        None \<Rightarrow> Done (json_error 401 ''You are not logged in. Please log in to get access.'')
      | Some token \<Rightarrow>
          (case jwt_verify cfg e token of
             None \<Rightarrow> Done (json_error 401 ''Authentication failed. Please log in again.'')
           | Some (decoded_id, decoded_iat) \<Rightarrow>
               (case findById False db decoded_id of
                  None \<Rightarrow>
                    Done (json_error 401 ''The user belonging to this token no longer exists.'')
                | Some currentUser \<Rightarrow>
                    if changedPasswordAfter currentUser decoded_iat
                    then Done (json_error 401
                                 ''User recently changed password. Please log in again.'')
                    else Next (req\<lparr>req_user := Some currentUser\<rparr>))))"

definition updatePassword :: "config \<Rightarrow> env \<Rightarrow> request \<Rightarrow> db \<Rightarrow> response \<times> db" where
  "updatePassword cfg e req db =
     (if \<not> csrf_ok req then (json_error 403 ''Invalid CSRF token'', db)
      else
        (case req_user req of
           None \<Rightarrow> (json_error 500 ''Error updating password. Please try again later.'', db)
         | Some ru \<Rightarrow>
             (case findById True db (uid ru) of
                None \<Rightarrow>
                  (json_error 500 ''Error updating password. Please try again later.'', db)
              | Some user \<Rightarrow>
                  (case correctPassword (body_currentPassword req) (password user) of
                     None \<Rightarrow>
                       (json_error 500 ''Error updating password. Please try again later.'', db)
                   | Some False \<Rightarrow> (json_error 401 ''Your current password is incorrect'', db)
                   | Some True \<Rightarrow>
                       if \<not> passwordRegex_test_field (body_newPassword req)
                       then (json_error 400 ''Password must contain at least one uppercase letter, one lowercase letter, one number, and one special character'', db)
                       else
                         (case save_validated cfg e db
                                 (user\<lparr>password := map_option Plain (body_newPassword req),
                                       passwordConfirm := body_passwordConfirm req\<rparr>) of
                            None \<Rightarrow>
                              (json_error 500
                                 ''Error updating password. Please try again later.'', db)
                          | Some (user1, db1) \<Rightarrow>
                              (let db2 = findByIdAndUpdate db1 (uid user1)
                                           (\<lambda>s. s\<lparr>passwordChangedAt := Some (clock e AtChanged),
                                                   securityEvents :=
                                                     securityEvents user1 @
                                                     [\<lparr>ev_type = PASSWORD_CHANGE,
                                                       ev_date = clock e AtEvent,
                                                       ev_ip = ip req\<rparr>]\<rparr>)
                               in (createSendToken cfg e user1 200 req, db2)))))))"

definition forgotPassword :: "config \<Rightarrow> env \<Rightarrow> request \<Rightarrow> db \<Rightarrow> response \<times> db" where
  "forgotPassword cfg e req db =
     (if \<not> csrf_ok req then (json_error 403 ''Invalid CSRF token'', db)
      else
        (case findOne_email False db (body_email req) of
           None \<Rightarrow> (json_error 404 ''There is no user with that email address'', db)
         | Some user \<Rightarrow>
             (let (user1, db1) =
                    save_novalidate e db
                      (user\<lparr>passwordResetToken := Some (Sha256 (randomBytes e)),
                            passwordResetExpires :=
                              Some (clock e AtResetExpiry + 60 * 60 * 1000)\<rparr>);
                  db2 = findByIdAndUpdate db1 (uid user1)
                          (\<lambda>s. s\<lparr>securityEvents :=
                                    securityEvents user1 @
                                    [\<lparr>ev_type = PASSWORD_RESET_REQUEST,
                                      ev_date = clock e AtEvent, ev_ip = ip req\<rparr>]\<rparr>)
              in (\<lparr>status = 200, body = SuccessMessage ''Token sent to email'',
                   set_cookies = []\<rparr>, db2))))"

definition resetPassword :: "config \<Rightarrow> env \<Rightarrow> request \<Rightarrow> db \<Rightarrow> response \<times> db" where
  "resetPassword cfg e req db =
     (if \<not> csrf_ok req then (json_error 403 ''Invalid CSRF token'', db)
      else
        (let hashedToken = Sha256 (params_token req)
         in case findOne_reset db hashedToken (clock e AtQuery) of
              None \<Rightarrow> (json_error 400 ''Token is invalid or has expired'', db)
            | Some user \<Rightarrow>
                if \<not> passwordRegex_test_field (body_password req)
                then (json_error 400 ''Password must contain at least one uppercase letter, one lowercase letter, one number, and one special character'', db)
                else
                  (case save_validated cfg e db
                          (user\<lparr>password := map_option Plain (body_password req),
                                passwordConfirm := body_passwordConfirm req,
                                passwordResetToken := None,
                                passwordResetExpires := None\<rparr>) of
                     None \<Rightarrow>
                       (json_error 500 ''Error resetting password. Please try again later.'', db)
                   | Some (user1, db1) \<Rightarrow>
                       (let db2 = findByIdAndUpdate db1 (uid user1)
                                    (\<lambda>s. s\<lparr>passwordChangedAt := Some (clock e AtChanged),
                                            securityEvents :=
                                              securityEvents user1 @
                                              [\<lparr>ev_type = PASSWORD_RESET,
                                                ev_date = clock e AtEvent,
                                                ev_ip = ip req\<rparr>]\<rparr>)
                        in (createSendToken cfg e user1 200 req, db2)))))"

section \<open>Properties and sample data\<close>

definition granted :: "step \<Rightarrow> bool" where
  \<comment> \<open>the middleware let the request through\<close>
  "granted st = (case st of Next q \<Rightarrow> True | Done r \<Rightarrow> False)"

definition exposes_password :: "response \<Rightarrow> bool" where
  \<comment> \<open>the user object of the response body has a \<^verbatim>\<open>password\<close> key\<close>
  "exposes_password r =
     (case body r of
        Session t u \<Rightarrow> ''password'' \<in> set (map fst u)
      | _ \<Rightarrow> False)"

definition issues_session :: "response \<Rightarrow> bool" where
  \<comment> \<open>the response carries a session token, in its body or in a cookie\<close>
  "issues_session r =
     ((case body r of Session t u \<Rightarrow> True | _ \<Rightarrow> False) \<or> set_cookies r \<noteq> [])"

definition strong_password :: "string \<Rightarrow> bool" where
  \<comment> \<open>the rule in the specification's words: length at least 8, and at least one
      uppercase letter, one lowercase letter, one digit and one special character\<close>
  "strong_password p =
     (8 \<le> length p \<and> list_ex is_upper p \<and> list_ex is_lower p \<and> list_ex is_digit p \<and>
      list_ex is_special p)"

definition known_email :: "db \<Rightarrow> string option \<Rightarrow> bool" where
  \<comment> \<open>some user that the reads of the store return has this email\<close>
  "known_email db f =
     (case f of
        None \<Rightarrow> False
      | Some a \<Rightarrow> list_ex (\<lambda>s. visible s \<and> email s = normalize_email a) db)"

fun login_all :: "config \<Rightarrow> env \<Rightarrow> request list \<Rightarrow> db \<Rightarrow> response list \<times> db" where
  \<comment> \<open>a sequence of login requests, each on the store the one before left\<close>
  "login_all cfg e [] db = ([], db)"
| "login_all cfg e (req # reqs) db =
     (let (r, db1) = login cfg e req db;
          (rs, db2) = login_all cfg e reqs db1
      in (r # rs, db2))"

definition cfg0 :: config where
  "cfg0 = \<lparr>JWT_SECRET = ''0123456789abcdef0123456789abcdef'', JWT_EXPIRES_IN = 7776000,
           JWT_COOKIE_EXPIRES_IN = 90, isEmail = (\<lambda>s. CHR ''@'' \<in> set s)\<rparr>"

definition env_at :: "int \<Rightarrow> env" where
  \<comment> \<open>a request handled within one millisecond\<close>
  "env_at t = \<lparr>clock = (\<lambda>p. t), randomBytes = ''5f2a9c'', salt = ''N9qo8uLOickgx2ZMRZoMye''\<rparr>"

definition alice :: user where
  \<comment> \<open>a verified, unlocked account as signup and verification leave it\<close>
  "alice =
     \<lparr>uid = 1, name = ''Alice'', email = ''alice@example.com'',
      password = Some (Bcrypt 12 ''N9qo8uLOickgx2ZMRZoMye'' ''Str0ng!Pass''),
      passwordConfirm = None, role = RoleUser, emailVerified = True,
      verificationToken = None, verificationExpires = None, passwordChangedAt = None,
      passwordResetToken = None, passwordResetExpires = None, active = Some True,
      lastLogin = None, lastLoginIp = None, loginAttempts = 0, accountLocked = False,
      lockUntil = None, securityEvents = []\<rparr>"

definition req0 :: request where
  \<comment> \<open>a request that passes the CSRF check and carries nothing else\<close>
  "req0 =
     \<lparr>x_csrf_token = Some ''c0ffee'', xsrf_cookie = Some ''c0ffee'', authorization = None,
      jwt_cookie = None, x_forwarded_proto = None, secure = False, ip = ''203.0.113.7'',
      body_name = None, body_email = None, body_password = None,
      body_passwordConfirm = None, body_currentPassword = None, body_newPassword = None,
      params_token = [], req_user = None\<rparr>"

definition login_req :: "string \<Rightarrow> string \<Rightarrow> request" where
  "login_req em pw = req0\<lparr>body_email := Some em, body_password := Some pw\<rparr>"

definition signup_req :: "string \<Rightarrow> string \<Rightarrow> string \<Rightarrow> string \<Rightarrow> request" where
  "signup_req nm em pw pc =
     req0\<lparr>body_name := Some nm, body_email := Some em, body_password := Some pw,
          body_passwordConfirm := Some pc\<rparr>"

definition bob :: user where
  \<comment> \<open>an account as signup leaves it: the email not yet verified\<close>
  "bob =
     \<lparr>uid = 2, name = ''Bob'', email = ''bob@example.com'',
      password = Some (Bcrypt 12 ''N9qo8uLOickgx2ZMRZoMye'' ''C0rrect!Horse''),
      passwordConfirm = None, role = RoleUser, emailVerified = False,
      verificationToken = Some (Sha256 ''5f2a9c''), verificationExpires = Some 86400000,
      passwordChangedAt = None, passwordResetToken = None, passwordResetExpires = None,
      active = Some True, lastLogin = None, lastLoginIp = None, loginAttempts = 0,
      accountLocked = False, lockUntil = None, securityEvents = []\<rparr>"

definition forgot_req :: "string \<Rightarrow> request" where
  "forgot_req em = req0\<lparr>body_email := Some em\<rparr>"

definition locked_alice :: user where
  \<comment> \<open>Alice's account locked until half an hour after the epoch\<close>
  "locked_alice = alice\<lparr>loginAttempts := 5, accountLocked := True, lockUntil := Some 1800000\<rparr>"

definition change_req :: request where
  \<comment> \<open>Alice, authenticated, changes her password\<close>
  "change_req =
     req0\<lparr>req_user := Some (alice\<lparr>password := None, active := None\<rparr>),
          body_currentPassword := Some ''Str0ng!Pass'',
          body_newPassword := Some ''N3w!Passw0rd'',
          body_passwordConfirm := Some ''N3w!Passw0rd''\<rparr>"

definition bearer_req :: "wire \<Rightarrow> request" where
  \<comment> \<open>a request that presents a token in the \<^verbatim>\<open>jwt\<close> cookie\<close>
  "bearer_req tok = req0\<lparr>jwt_cookie := Some tok\<rparr>"

definition reset_holder :: user where
  \<comment> \<open>Alice after forgotPassword at time 0: she holds the hash of a token good for an hour\<close>
  "reset_holder =
     alice\<lparr>passwordResetToken := Some (Sha256 ''5f2a9c''),
           passwordResetExpires := Some 3600000\<rparr>"

definition reset_req :: request where
  "reset_req =
     req0\<lparr>params_token := ''5f2a9c'', body_password := Some ''N3w!Passw0rd'',
          body_passwordConfirm := Some ''N3w!Passw0rd''\<rparr>"

definition deactivated_alice :: user where
  \<comment> \<open>Alice's account with the soft-delete flag set\<close>
  "deactivated_alice = alice\<lparr>active := Some False\<rparr>"

definition deactivated_holder :: user where
  \<comment> \<open>a deactivated account that holds the hash of a reset token good for an hour\<close>
  "deactivated_holder = reset_holder\<lparr>active := Some False\<rparr>"

definition created :: "env \<Rightarrow> db \<Rightarrow> string \<Rightarrow> string \<Rightarrow> string \<Rightarrow> user" where
  \<comment> \<open>the document \<^verbatim>\<open>User.create\<close> returns for a name, an email and a password\<close>
  "created e db n a pw =
     \<lparr>uid = new_id db, name = trim n, email = normalize_email a,
      password = Some (Bcrypt 12 (salt e) pw), passwordConfirm = None, role = RoleUser,
      emailVerified = False, verificationToken = None, verificationExpires = None,
      passwordChangedAt = None, passwordResetToken = None, passwordResetExpires = None,
      active = Some True, lastLogin = None, lastLoginIp = None, loginAttempts = 0,
      accountLocked = False, lockUntil = None, securityEvents = []\<rparr>"

section \<open>Basic facts\<close>

lemma find_None_list_ex: "(find P xs = None) = (\<not> list_ex P xs)"
  by (induction xs) auto

lemma keys_present: "fst ` set (present k v) = (if v = None then {} else {k})"
  by (cases v) (simp_all add: present_def)

lemma toJSON_without_password:
  "''password'' \<notin> fst ` set (toJSON (u\<lparr>password := None\<rparr>))"
  by (simp add: toJSON_def keys_present image_Un)

text \<open>The serialiser itself does write a password that the document still holds.\<close>

lemma toJSON_with_password:
  "password u = Some h \<Longrightarrow> ''password'' \<in> fst ` set (toJSON u)"
  by (simp add: toJSON_def keys_present image_Un)

lemma createSendToken_hides_password: "\<not> exposes_password (createSendToken cfg e u n req)"
  by (simp add: createSendToken_def exposes_password_def Let_def toJSON_without_password)

lemma json_error_hides_password: "\<not> exposes_password (json_error n m)"
  by (simp add: exposes_password_def json_error_def)

lemma error_body_hides_password:
  "\<not> exposes_password \<lparr>status = n, body = Error m, set_cookies = c\<rparr>"
  by (simp add: exposes_password_def)

lemma known_email_findOne: "known_email db f = (findOne_email b db f \<noteq> None)"
  by (cases f) (simp_all add: known_email_def findOne_email_def find_None_list_ex)

lemma signup_hides_password: "\<not> exposes_password (fst (signup cfg e req db))"
  by (simp add: signup_def Let_def createSendToken_hides_password json_error_hides_password
      split: option.splits prod.splits)

lemma login_hides_password: "\<not> exposes_password (fst (login cfg e req db))"
  by (simp add: login_def Let_def createSendToken_hides_password json_error_hides_password
        error_body_hides_password
      split: option.splits prod.splits bool.splits)

lemma updatePassword_hides_password: "\<not> exposes_password (fst (updatePassword cfg e req db))"
  by (simp add: updatePassword_def Let_def createSendToken_hides_password
        json_error_hides_password
      split: option.splits prod.splits bool.splits)

lemma resetPassword_hides_password: "\<not> exposes_password (fst (resetPassword cfg e req db))"
  by (simp add: resetPassword_def Let_def createSendToken_hides_password
        json_error_hides_password
      split: option.splits prod.splits bool.splits)

lemmas sample_defs =
  cfg0_def env_at_def alice_def bob_def req0_def login_req_def signup_req_def forgot_req_def
  locked_alice_def change_req_def bearer_req_def reset_holder_def reset_req_def
  deactivated_alice_def deactivated_holder_def

lemmas string_defs =
  code_unit_def is_digit_def is_lower_def is_upper_def is_special_def
  is_line_terminator_def first_line_def passwordRegex_test_def passwordRegex_test_field_def
  to_lower_unit_def toLowerCase_def is_white_def trim_def falsy_def normalize_email_def

lemmas store_defs =
  visible_def project_def findOne_email_def findById_def unexpired_def findOne_reset_def
  merged_def persist_def findByIdAndUpdate_def new_id_def validate_def pre_save_def
  save_novalidate_def save_validated_def User_create_def correctPassword_def

lemmas eval_defs =
  sample_defs string_defs store_defs csrf_ok_def json_error_def createSendToken_def
  signToken_def Let_def

lemma find_Some_member: "x \<in> set xs \<Longrightarrow> P x \<Longrightarrow> \<exists>y. find P xs = Some y"
  by (induction xs) auto

lemma find_SomeD: "find P xs = Some y \<Longrightarrow> y \<in> set xs \<and> P y"
  by (induction xs) (auto split: if_splits)


lemma find_map_preserved:
  assumes "\<And>s. P (g s) = P s"
  shows "find P (map g xs) = map_option g (find P xs)"
  using assms by (induction xs) auto

lemma findById_persist:
  assumes "active d = None"
  shows "find (\<lambda>s. visible s \<and> uid s = i) (persist db d) =
           map_option (\<lambda>s. if uid s = uid d then merged d s else s)
             (find (\<lambda>s. visible s \<and> uid s = i) db)"
  unfolding persist_def
  by (rule find_map_preserved) (simp add: merged_def visible_def assms)

lemma findById_findByIdAndUpdate:
  assumes "\<And>s. uid (f s) = uid s \<and> active (f s) = active s"
  shows "find (\<lambda>s. visible s \<and> uid s = i) (findByIdAndUpdate db j f) =
           map_option (\<lambda>s. if uid s = j \<and> visible s then f s else s)
             (find (\<lambda>s. visible s \<and> uid s = i) db)"
  unfolding findByIdAndUpdate_def
  by (rule find_map_preserved) (simp add: visible_def assms)

lemma findById_SomeD:
  assumes "findById b db i = Some d"
  shows "uid d = i \<and> active d = None \<and>
         (\<exists>s. find (\<lambda>s. visible s \<and> uid s = i) db = Some s \<and> d = project b s)"
  using assms by (auto simp: findById_def project_def dest: find_SomeD)

lemma status_createSendToken: "status (createSendToken cfg e u n req) = n"
  by (simp add: createSendToken_def Let_def)

lemma body_createSendToken:
  "body (createSendToken cfg e u n req) =
     Session (signToken cfg e (uid u)) (toJSON (u\<lparr>password := None\<rparr>))"
  by (simp add: createSendToken_def Let_def)

lemma length_first_line: "length (first_line s) \<le> length s"
  by (simp add: first_line_def length_takeWhile_le)

lemma list_ex_first_line: "list_ex P (first_line s) \<Longrightarrow> list_ex P s"
  by (auto simp: first_line_def list_ex_iff dest: set_takeWhileD)

lemma passwordRegex_length: "passwordRegex_test p \<Longrightarrow> 8 \<le> length p"
  using length_first_line [of p] by (simp add: passwordRegex_test_def)

text \<open>Whatever the expression accepts is a strong password in the specification's words.\<close>

lemma passwordRegex_strong: "passwordRegex_test p \<Longrightarrow> strong_password p"
  using length_first_line [of p]
  by (auto simp: passwordRegex_test_def strong_password_def intro: list_ex_first_line)

text \<open>
  The setters of the email path do not tell letter case apart: two addresses that are
  equal up to letter case are stored, and looked up, as the same text.
\<close>

lemma is_white_to_lower_unit: "is_white (to_lower_unit c) = is_white c"
proof -
  have "of_char (char_of (of_char c + 32 :: nat)) = (of_char c + 32 :: nat)"
    if "(of_char c :: nat) \<le> 222"
    using that by simp
  then show ?thesis
    by (auto simp: is_white_def to_lower_unit_def code_unit_def Let_def)
qed

lemma trim_toLowerCase: "trim (toLowerCase s) = toLowerCase (trim s)"
proof -
  have w: "is_white \<circ> to_lower_unit = is_white"
    by (rule ext) (simp add: is_white_to_lower_unit)
  have d: "dropWhile is_white (map to_lower_unit xs) = map to_lower_unit (dropWhile is_white xs)"
    for xs
    by (simp add: dropWhile_map w)
  show ?thesis
    by (simp add: trim_def toLowerCase_def d rev_map)
qed

lemma normalize_email_case:
  assumes "toLowerCase a = toLowerCase b"
  shows "normalize_email a = normalize_email b"
  using assms by (simp add: normalize_email_def trim_toLowerCase [symmetric])

lemma uid_below_fold_max: "s \<in> set db \<Longrightarrow> uid s \<le> fold max (map uid db) m"
proof (induction db arbitrary: m)
  case Nil
  then show ?case by simp
next
  case (Cons a db)
  have mono: "m \<le> fold max (map uid db) m" for m
    by (induction db arbitrary: m) (auto intro: order_trans [OF max.cobounded2])
  from Cons show ?case
    using mono [of "max (uid a) m"] by auto
qed

lemma new_id_fresh: "s \<in> set db \<Longrightarrow> uid s \<noteq> new_id db"
  using uid_below_fold_max [of s db 0] by (simp add: new_id_def)

lemma find_append:
  "find P (xs @ ys) = (case find P xs of None \<Rightarrow> find P ys | Some x \<Rightarrow> Some x)"
  by (induction xs) auto

section \<open>Forgot password\<close>

text \<open>
  Claim C2 says that two forgotPassword requests that differ only in whether the email
  belongs to a user get the same 200 response, and that 404 is never returned.  The handler
  answers 404 for an email of no user: against a store that holds only Alice, the request
  for an unknown address gets 404 and the request for Alice's address gets 200.
\<close>

theorem forgotPassword_unknown_email_is_404:
  "status (fst (forgotPassword cfg0 (env_at 0) (forgot_req ''nobody@example.com'') [alice])) = 404 \<and>
   status (fst (forgotPassword cfg0 (env_at 0) (forgot_req ''alice@example.com'') [alice])) = 200"
  by (simp add: forgotPassword_def sample_defs string_defs store_defs csrf_ok_def
      json_error_def Let_def)

text \<open>
  Claim C2, as the handler has it: a forgotPassword request that passes the CSRF check is
  answered by whether a user the store returns has the supplied email: 200 with
  \<^verbatim>\<open>Token sent to email\<close> when one has, and 404 with
  \<^verbatim>\<open>There is no user with that email address\<close> when none has.
\<close>

theorem forgotPassword_answers_by_existence:
  assumes "csrf_ok req"
  shows "fst (forgotPassword cfg e req db) =
           (if known_email db (body_email req)
            then \<lparr>status = 200, body = SuccessMessage ''Token sent to email'', set_cookies = []\<rparr>
            else json_error 404 ''There is no user with that email address'')"
  using assms
  by (simp add: forgotPassword_def known_email_findOne [of db _ False] Let_def
      split: option.splits prod.splits)

theorem forgotPassword_answers_by_existence_witness:
  "csrf_ok (forgot_req ''nobody@example.com'') \<and>
   \<not> known_email [alice] (body_email (forgot_req ''nobody@example.com'')) \<and>
   fst (forgotPassword cfg0 (env_at 0) (forgot_req ''nobody@example.com'') [alice]) =
     json_error 404 ''There is no user with that email address''"
proof -
  have c: "csrf_ok (forgot_req ''nobody@example.com'')"
    by (simp add: csrf_ok_def sample_defs falsy_def)
  have k: "\<not> known_email [alice] (body_email (forgot_req ''nobody@example.com''))"
    by (simp add: known_email_def sample_defs string_defs visible_def)
  show ?thesis
    using c k forgotPassword_answers_by_existence [OF c, of cfg0 "env_at 0" "[alice]"]
    by simp
qed

section \<open>Login of an unverified account\<close>

text \<open>
  Claim C5: for every user whose \<^verbatim>\<open>emailVerified\<close> flag is false, a login with the right
  email and the right password fails with 401 and the message
  \<^verbatim>\<open>Please verify your email before logging in\<close>, whether the account is locked or not.
  The response sets no cookie and has no token, and the store is left as it was.
\<close>

theorem login_unverified_rejected:
  assumes "csrf_ok req" and "\<not> falsy (body_email req)" and "\<not> falsy (body_password req)"
    and "findOne_email True db (body_email req) = Some u"
    and "correctPassword (body_password req) (password u) = Some True"
    and "emailVerified u = False"
  shows "login cfg e req db =
           (json_error 401 ''Please verify your email before logging in'', db) \<and>
         \<not> issues_session (fst (login cfg e req db))"
  using assms by (simp add: login_def issues_session_def json_error_def)

theorem login_unverified_rejected_witness:
  "csrf_ok (login_req ''bob@example.com'' ''C0rrect!Horse'') \<and>
   findOne_email True [bob] (body_email (login_req ''bob@example.com'' ''C0rrect!Horse'')) =
     Some (bob\<lparr>active := None\<rparr>) \<and>
   correctPassword (body_password (login_req ''bob@example.com'' ''C0rrect!Horse''))
     (password (bob\<lparr>active := None\<rparr>)) = Some True \<and>
   login cfg0 (env_at 0) (login_req ''bob@example.com'' ''C0rrect!Horse'') [bob] =
     (json_error 401 ''Please verify your email before logging in'', [bob])"
proof -
  let ?req = "login_req ''bob@example.com'' ''C0rrect!Horse''"
  have c: "csrf_ok ?req" by (simp add: csrf_ok_def sample_defs falsy_def)
  have f1: "\<not> falsy (body_email ?req)" by (simp add: sample_defs falsy_def)
  have f2: "\<not> falsy (body_password ?req)" by (simp add: sample_defs falsy_def)
  have u: "findOne_email True [bob] (body_email ?req) = Some (bob\<lparr>active := None\<rparr>)"
    by (simp add: sample_defs string_defs store_defs)
  have p: "correctPassword (body_password ?req) (password (bob\<lparr>active := None\<rparr>)) = Some True"
    by (simp add: sample_defs correctPassword_def)
  have v: "emailVerified (bob\<lparr>active := None\<rparr>) = False" by (simp add: bob_def)
  show ?thesis
    using c u p login_unverified_rejected [OF c f1 f2 u p v, of cfg0 "env_at 0"] by simp
qed

text \<open>What a signup that answered 201 did.\<close>

lemma signup_201:
  assumes "status (fst (signup cfg e req db)) = 201"
  shows "\<exists>n a pw.
           csrf_ok req \<and> body_name req = Some n \<and> body_email req = Some a \<and>
           body_password req = Some pw \<and> 8 \<le> length pw \<and> normalize_email a \<noteq> [] \<and>
           \<not> list_ex (\<lambda>s. email s = normalize_email a) db \<and>
           snd (signup cfg e req db) =
             persist (db @ [created e db n a pw])
               ((created e db n a pw)
                  \<lparr>verificationToken := Some (Sha256 (randomBytes e)),
                   verificationExpires := Some (clock e AtVerification + 86400000)\<rparr>)"
  using assms
  apply (simp add: signup_def json_error_def status_createSendToken
      split: if_splits option.splits prod.splits)
  apply (auto simp: User_create_def save_novalidate_def pre_save_def validate_def Let_def
      created_def split: if_splits option.splits)
  done

text \<open>
  Signup leaves every new user unverified, so the login that follows a signup, with the
  same email and password, is refused in this way.
\<close>

lemma signup_then_login_needs_verification:
  assumes ok: "status (fst (signup cfg e req db)) = 201"
    and req': "csrf_ok req'" "body_email req' = body_email req"
      "body_password req' = body_password req"
  shows "login cfg e' req' (snd (signup cfg e req db)) =
           (json_error 401 ''Please verify your email before logging in'',
            snd (signup cfg e req db))"
proof -
  from signup_201 [OF ok] obtain n a pw where
    b: "body_email req = Some a" "body_password req = Some pw" and
    l: "8 \<le> length pw" "normalize_email a \<noteq> []" and
    u: "\<not> list_ex (\<lambda>s. email s = normalize_email a) db" and
    st: "snd (signup cfg e req db) =
             persist (db @ [created e db n a pw])
               ((created e db n a pw)
                  \<lparr>verificationToken := Some (Sha256 (randomBytes e)),
                   verificationExpires := Some (clock e AtVerification + 86400000)\<rparr>)"
    by blast
  define newUser where "newUser = created e db n a pw"
  have nu: "uid newUser = new_id db" "email newUser = normalize_email a"
      "emailVerified newUser = False" "active newUser = Some True"
      "password newUser = Some (Bcrypt 12 (salt e) pw)"
    by (simp_all add: newUser_def created_def)
  note st = st [folded newUser_def]
  define stored where
    "stored = merged (newUser\<lparr>verificationToken := Some (Sha256 (randomBytes e)),
                verificationExpires := Some (clock e AtVerification + 86400000)\<rparr>) newUser"
  have st': "snd (signup cfg e req db) = db @ [stored]"
    using new_id_fresh [of _ db]
    by (simp add: st persist_def nu stored_def map_idI)
  have a: "a \<noteq> []" using l(2) by (auto simp: normalize_email_def toLowerCase_def trim_def)
  have "find (\<lambda>s. visible s \<and> email s = normalize_email a) db = None"
    using u by (auto simp: find_None_iff list_ex_iff)
  then have f: "findOne_email True (db @ [stored]) (Some a) = Some (project True stored)"
    by (simp add: findOne_email_def find_append stored_def merged_def nu visible_def)
  have p: "correctPassword (Some pw) (password (project True stored)) = Some True"
    by (simp add: correctPassword_def project_def stored_def merged_def nu)
  have v: "emailVerified (project True stored) = False"
    by (simp add: project_def stored_def merged_def nu)
  show ?thesis
    using req' b a l(1) f p v by (auto simp: login_def st' falsy_def)
qed

section \<open>Logout\<close>

text \<open>
  Claim C8 says that logout sets the \<^verbatim>\<open>jwt\<close> cookie to an expiry that is not after the
  moment of the response.  The handler sets the expiry ten seconds later: with the clock
  at 0 the cookie expires at 10000.
\<close>

theorem logout_cookie_expires_later:
  "map ck_expires (set_cookies (logout (env_at 0) req0)) = [10000] \<and>
   clock (env_at 0) AtCookie = 0"
  by (simp add: logout_def env_at_def)

text \<open>A request whose only token is the text that logout leaves is refused.\<close>

lemma loggedout_cookie_is_refused:
  assumes "authorization req = None" and "jwt_cookie req = Some (Raw ''loggedout'')"
  shows "protect cfg e req db =
           Done (json_error 401 ''Authentication failed. Please log in again.'')"
  using assms by (simp add: protect_def bearer_token_def jwt_verify_def)

text \<open>
  Claim C8, as the handler has it: every logout request is answered 200 with
  \<^verbatim>\<open>{status: 'success'}\<close>, and overwrites the \<^verbatim>\<open>jwt\<close> cookie with the text \<^verbatim>\<open>loggedout\<close>, which
  never verifies as a session token, in an http-only cookie that expires 10 seconds after
  the clock reading of the handler.
\<close>

theorem logout_overwrites_cookie:
  "status (logout e req) = 200 \<and> body (logout e req) = Success \<and>
   set_cookies (logout e req) =
     [\<lparr>ck_name = ''jwt'', ck_value = Raw ''loggedout'',
       ck_expires = clock e AtCookie + 10000, ck_httpOnly = True, ck_secure = False\<rparr>] \<and>
   jwt_verify cfg e' (Raw ''loggedout'') = None"
  by (simp add: logout_def jwt_verify_def)

section \<open>No password in a response\<close>

text \<open>
  Claim C10: the user object in the body of a signup, login, password-change or
  reset-password response has no \<^verbatim>\<open>password\<close> field.  Every response with a user object is
  built by \<^const>\<open>createSendToken\<close>, which clears the path before it serialises the document.
\<close>

theorem session_responses_hide_password:
  "\<not> exposes_password (fst (signup cfg e req db)) \<and>
   \<not> exposes_password (fst (login cfg e req db)) \<and>
   \<not> exposes_password (fst (updatePassword cfg e req db)) \<and>
   \<not> exposes_password (fst (resetPassword cfg e req db))"
  by (simp add: signup_hides_password login_hides_password updatePassword_hides_password
      resetPassword_hides_password)

section \<open>Failed logins and the lock\<close>

lemma login_answers_200_or_keeps_store:
  "status (fst (login cfg e req db)) = 200 \<or> snd (login cfg e req db) = db"
  by (simp add: login_def Let_def status_createSendToken
      split: option.splits prod.splits bool.splits)

text \<open>A login that is refused, for whatever reason, writes nothing to the store.\<close>

lemma login_rejection_keeps_store:
  "status (fst (login cfg e req db)) \<noteq> 200 \<Longrightarrow> snd (login cfg e req db) = db"
  using login_answers_200_or_keeps_store [of cfg e req db] by simp

text \<open>
  The model method that counts a failure does what the lockout policy asks: the fifth
  failure locks the account for 30 minutes.  No handler calls it.
\<close>

lemma handleFailedLogin_below:
  assumes "loginAttempts this < 4"
  shows "handleFailedLogin e db this =
           (accountLocked this, this\<lparr>loginAttempts := loginAttempts this + 1\<rparr>,
            persist db (this\<lparr>loginAttempts := loginAttempts this + 1\<rparr>))"
  using assms by (simp add: handleFailedLogin_def save_novalidate_def pre_save_def Let_def)

lemma handleFailedLogin_fifth:
  assumes "loginAttempts this = 4"
  shows "handleFailedLogin e db this =
           (True,
            this\<lparr>loginAttempts := 5, accountLocked := True,
                 lockUntil := Some (clock e AtLock + 1800000)\<rparr>,
            persist db (this\<lparr>loginAttempts := 5, accountLocked := True,
                            lockUntil := Some (clock e AtLock + 1800000)\<rparr>))"
  using assms by (simp add: handleFailedLogin_def save_novalidate_def pre_save_def Let_def)

text \<open>
  Claim C1 says that five failed logins in a row raise \<^verbatim>\<open>loginAttempts\<close> to 5 and lock the
  account for 30 minutes, so that the sixth login fails even with the right password.
  The handler does not count failures.  Five logins with a wrong password against Alice's
  account are each answered 401 and leave her record as it was, with \<^verbatim>\<open>loginAttempts\<close> 0 and
  no lock, and the login with the right password that follows is answered 200.
\<close>

theorem login_failures_never_lock:
  "login_all cfg0 (env_at 0)
     [login_req ''alice@example.com'' ''wrong'', login_req ''alice@example.com'' ''wrong'',
      login_req ''alice@example.com'' ''wrong'', login_req ''alice@example.com'' ''wrong'',
      login_req ''alice@example.com'' ''wrong''] [alice] =
     ([json_error 401 ''Incorrect email or password'',
       json_error 401 ''Incorrect email or password'',
       json_error 401 ''Incorrect email or password'',
       json_error 401 ''Incorrect email or password'',
       json_error 401 ''Incorrect email or password''], [alice]) \<and>
   loginAttempts alice = 0 \<and> accountLocked alice = False \<and>
   status (fst (login cfg0 (env_at 0) (login_req ''alice@example.com'' ''Str0ng!Pass'') [alice])) = 200"
  by (simp add: login_def eval_defs)

text \<open>
  Claim C7 says that a login against an account that is locked, before \<^verbatim>\<open>lockUntil\<close>, fails
  with the locked-account answer without the password being checked, whatever the
  password.  The handler checks the password first: against Alice's locked account the
  answer to a wrong password is \<^verbatim>\<open>Incorrect email or password\<close>, and only the right password
  gets the locked-account answer.
\<close>

theorem login_locked_depends_on_password:
  "fst (login cfg0 (env_at 60000) (login_req ''alice@example.com'' ''wrong'') [locked_alice]) =
     json_error 401 ''Incorrect email or password'' \<and>
   fst (login cfg0 (env_at 60000) (login_req ''alice@example.com'' ''Str0ng!Pass'')
          [locked_alice]) =
     \<lparr>status = 401, body = Error (AccountLockedUntil 1800000), set_cookies = []\<rparr>"
  by (simp add: login_def eval_defs)

text \<open>
  Claim C7, as the handler has it: a login against an account that is locked, before
  \<^verbatim>\<open>lockUntil\<close>, always fails with 401 and leaves the store as it was, and the password is
  checked first.  A wrong password is answered \<^verbatim>\<open>Incorrect email or password\<close>; the right
  password is answered \<^verbatim>\<open>Please verify your email before logging in\<close> when the email is not
  verified, and with the locked-account message and the time of \<^verbatim>\<open>lockUntil\<close> otherwise.
\<close>

theorem login_locked_checks_password_first:
  assumes "csrf_ok req" and "\<not> falsy (body_email req)" and "\<not> falsy (body_password req)"
    and "findOne_email True db (body_email req) = Some u"
    and "correctPassword (body_password req) (password u) = Some right"
    and "accountLocked u" and "lockUntil u = Some t" and "clock e AtLockCheck < t"
  shows "login cfg e req db =
           (if \<not> right then json_error 401 ''Incorrect email or password''
            else if emailVerified u = False
            then json_error 401 ''Please verify your email before logging in''
            else \<lparr>status = 401, body = Error (AccountLockedUntil t), set_cookies = []\<rparr>, db)"
  using assms by (simp add: login_def)

theorem login_locked_checks_password_first_witness:
  "csrf_ok (login_req ''alice@example.com'' ''Str0ng!Pass'') \<and>
   findOne_email True [locked_alice]
     (body_email (login_req ''alice@example.com'' ''Str0ng!Pass'')) =
     Some (locked_alice\<lparr>active := None\<rparr>) \<and>
   accountLocked locked_alice \<and> lockUntil locked_alice = Some 1800000 \<and>
   clock (env_at 60000) AtLockCheck < 1800000 \<and>
   login cfg0 (env_at 60000) (login_req ''alice@example.com'' ''Str0ng!Pass'') [locked_alice] =
     (\<lparr>status = 401, body = Error (AccountLockedUntil 1800000), set_cookies = []\<rparr>,
      [locked_alice])"
proof -
  let ?req = "login_req ''alice@example.com'' ''Str0ng!Pass''"
  let ?u = "locked_alice\<lparr>active := None\<rparr>"
  have c: "csrf_ok ?req" by (simp add: csrf_ok_def sample_defs falsy_def)
  have f1: "\<not> falsy (body_email ?req)" by (simp add: sample_defs falsy_def)
  have f2: "\<not> falsy (body_password ?req)" by (simp add: sample_defs falsy_def)
  have u: "findOne_email True [locked_alice] (body_email ?req) = Some ?u"
    by (simp add: sample_defs string_defs store_defs)
  have p: "correctPassword (body_password ?req) (password ?u) = Some True"
    by (simp add: sample_defs correctPassword_def)
  have l: "accountLocked ?u" "lockUntil ?u = Some 1800000"
    by (simp_all add: sample_defs)
  have t: "clock (env_at 60000) AtLockCheck < 1800000" by (simp add: env_at_def)
  have v: "emailVerified ?u" by (simp add: sample_defs)
  show ?thesis
    using c u l t v
      login_locked_checks_password_first [OF c f1 f2 u p l t, of cfg0]
    by simp
qed

section \<open>Signup\<close>

text \<open>
  For a user that the store's reads return, a signup whose email equals the address that
  user signed up with, up to letter case, is answered 400 with \<^verbatim>\<open>Email already in use\<close> and
  writes nothing.  The user's stored email is the address \<open>em0\<close> as the setters of the schema
  path left it; the request passes the CSRF check and its password passes the checks that
  come before the lookup.
\<close>

lemma signup_duplicate_email:
  assumes "csrf_ok req" and "body_password req = Some pw" and "passwordRegex_test pw"
    and "body_passwordConfirm req = Some pw" and "body_email req = Some em"
    and "u \<in> set db" and "visible u" and "email u = normalize_email em0"
    and "toLowerCase em = toLowerCase em0"
  shows "signup cfg e req db = (json_error 400 ''Email already in use'', db)"
proof -
  have "8 \<le> length pw"
    using assms(3) by (rule passwordRegex_length)
  moreover have "email u = normalize_email em"
    using assms(8,9) by (simp add: normalize_email_case [of em em0])
  then have "\<exists>y. findOne_email False db (body_email req) = Some y"
    using find_Some_member [of u db "\<lambda>s. visible s \<and> email s = normalize_email em"] assms
    by (auto simp: findOne_email_def)
  ultimately show ?thesis
    using assms by (auto simp: signup_def)
qed

lemma signup_duplicate_email_visible_example:
  "csrf_ok (signup_req ''Mallory'' ''ALICE@Example.com'' ''Str0ng!Pass'' ''Str0ng!Pass'') \<and>
   passwordRegex_test ''Str0ng!Pass'' \<and> alice \<in> set [alice] \<and> visible alice \<and>
   email alice = normalize_email ''alice@example.com'' \<and>
   toLowerCase ''ALICE@Example.com'' = toLowerCase ''alice@example.com'' \<and>
   signup cfg0 (env_at 0)
     (signup_req ''Mallory'' ''ALICE@Example.com'' ''Str0ng!Pass'' ''Str0ng!Pass'') [alice] =
     (json_error 400 ''Email already in use'', [alice])"
proof -
  let ?req = "signup_req ''Mallory'' ''ALICE@Example.com'' ''Str0ng!Pass'' ''Str0ng!Pass''"
  have c: "csrf_ok ?req" by (simp add: csrf_ok_def sample_defs falsy_def)
  have b: "body_password ?req = Some ''Str0ng!Pass''"
    "body_passwordConfirm ?req = Some ''Str0ng!Pass''"
    "body_email ?req = Some ''ALICE@Example.com''"
    by (simp_all add: sample_defs)
  have p: "passwordRegex_test ''Str0ng!Pass''" by (simp add: string_defs)
  have m: "alice \<in> set [alice]" by simp
  have v: "visible alice" by (simp add: visible_def alice_def)
  have n: "email alice = normalize_email ''alice@example.com''"
    by (simp add: alice_def string_defs)
  have l: "toLowerCase ''ALICE@Example.com'' = toLowerCase ''alice@example.com''"
    by code_simp
  show ?thesis
    using c p m v n l
      signup_duplicate_email [OF c b(1) p b(2) b(3) m v n l, of cfg0 "env_at 0"]
    by simp
qed

text \<open>
  A signup never adds a second record with an email that some record already has, whether
  that record is deactivated or not: the answer is then 400 or 500, and nothing is written.
\<close>

lemma signup_duplicate_writes_nothing:
  assumes "u \<in> set db" and "body_email req = Some em" and "email u = normalize_email em"
  shows "snd (signup cfg e req db) = db \<and> status (fst (signup cfg e req db)) \<noteq> 201"
proof -
  have "list_ex (\<lambda>s. email s = normalize_email em) db"
    using assms(1,3) by (auto simp: list_ex_iff)
  then have "User_create cfg e db nm (Some em) pw pc = None" for nm pw pc
    by (simp add: User_create_def Let_def split: option.splits)
  then show ?thesis
    using assms(2) by (simp add: signup_def json_error_def split: option.splits)
qed

text \<open>
  Claim C6 says that for every existing user a signup with that user's email, up to letter
  case, fails with 400 and \<^verbatim>\<open>Email already in use\<close>.  For an existing user that is
  deactivated the handler answers 500: the pre-find hook hides the record from the lookup
  that guards the creation, the unique index on the email then refuses the insert, and the
  handler's catch-all turns the error into \<^verbatim>\<open>Error signing up\<close>.  No user is created.
\<close>

theorem signup_deactivated_duplicate_is_500:
  "deactivated_alice \<in> set [deactivated_alice] \<and>
   email deactivated_alice = ''alice@example.com'' \<and>
   toLowerCase ''Alice@Example.com'' = ''alice@example.com'' \<and>
   signup cfg0 (env_at 0)
     (signup_req ''Mallory'' ''Alice@Example.com'' ''Str0ng!Pass'' ''Str0ng!Pass'')
     [deactivated_alice] =
   (json_error 500 ''Error signing up. Please try again later.'', [deactivated_alice])"
  by code_simp

text \<open>
  When the request passes the CSRF check and has a password, signup keeps the password
  rules: it answers 201 only for a strong password that equals its confirmation, and it
  answers 400 and writes nothing for every other password.
\<close>

lemma signup_accepts_only_strong:
  assumes "csrf_ok req" and "body_password req = Some pw"
    and "status (fst (signup cfg e req db)) = 201"
  shows "strong_password pw \<and> body_passwordConfirm req = Some pw"
  using assms
  by (auto simp: signup_def json_error_def Let_def dest: passwordRegex_strong
      split: if_splits option.splits prod.splits)

lemma signup_refuses_weak:
  assumes "csrf_ok req" and "body_password req = Some pw"
    and "\<not> (strong_password pw \<and> body_passwordConfirm req = Some pw)"
  shows "status (fst (signup cfg e req db)) = 400 \<and> snd (signup cfg e req db) = db"
  using assms
  by (auto simp: signup_def json_error_def Let_def dest: passwordRegex_strong
      split: if_splits option.splits prod.splits)

text \<open>
  Claim C9 says that every signup input that breaks the password rules fails with a 400
  validation error before a user is created.  A request that has no password at all breaks
  them, and the handler answers it 500: reading the length of the missing password throws,
  and the handler's catch-all turns that into \<^verbatim>\<open>Error signing up\<close>.  Nothing is written.
\<close>

theorem signup_without_password_is_500:
  "signup cfg0 (env_at 0)
     (req0\<lparr>body_name := Some ''Carol'', body_email := Some ''carol@example.com''\<rparr>) [alice] =
   (json_error 500 ''Error signing up. Please try again later.'', [alice])"
  by (simp add: signup_def sample_defs csrf_ok_def falsy_def)

section \<open>Changing the password\<close>

lemma protect_with_token:
  assumes "bearer_token req = Some (Jwt (JWT_SECRET cfg) i issued expires)"
    and "clock e AtVerify div 1000 < expires"
    and "findById False db i = Some d"
  shows "protect cfg e req db =
           (if changedPasswordAfter d issued
            then Done (json_error 401 ''User recently changed password. Please log in again.'')
            else Next (req\<lparr>req_user := Some d\<rparr>))"
  using assms by (simp add: protect_def jwt_verify_def)

text \<open>What an updatePassword that answered 200 did.\<close>

lemma updatePassword_200:
  assumes "status (fst (updatePassword cfg e req db)) = 200" and "req_user req = Some ru"
  shows "\<exists>user p.
           findById True db (uid ru) = Some user \<and>
           updatePassword cfg e req db =
             (createSendToken cfg e
                (user\<lparr>password := Some (Bcrypt 12 (salt e) p), passwordConfirm := None,
                      passwordChangedAt := Some (clock e AtHook - 1000)\<rparr>) 200 req,
              findByIdAndUpdate
                (persist db
                   (user\<lparr>password := Some (Bcrypt 12 (salt e) p), passwordConfirm := None,
                         passwordChangedAt := Some (clock e AtHook - 1000)\<rparr>))
                (uid user)
                (\<lambda>s. s\<lparr>passwordChangedAt := Some (clock e AtChanged),
                        securityEvents :=
                          securityEvents user @
                          [\<lparr>ev_type = PASSWORD_CHANGE, ev_date = clock e AtEvent,
                            ev_ip = ip req\<rparr>]\<rparr>))"
  using assms
  apply (simp add: updatePassword_def json_error_def split: if_splits option.splits bool.splits)
  apply (auto simp: save_validated_def pre_save_def Let_def validate_def
      passwordRegex_test_field_def split: if_splits option.splits)
  done

text \<open>
  The time of the change that is left in the store is the one \<^verbatim>\<open>findByIdAndUpdate\<close> writes,
  not the one of the save hook.
\<close>

lemma updatePassword_changed_at:
  assumes ok: "status (fst (updatePassword cfg e req db)) = 200"
    and ru: "req_user req = Some ru"
  shows "\<exists>d payload.
           findById False (snd (updatePassword cfg e req db)) (uid ru) = Some d \<and>
           passwordChangedAt d = Some (clock e AtChanged) \<and>
           body (fst (updatePassword cfg e req db)) = Session (signToken cfg e (uid ru)) payload"
proof -
  from updatePassword_200 [OF ok ru] obtain user p where
    u: "findById True db (uid ru) = Some user" and
    r: "updatePassword cfg e req db =
             (createSendToken cfg e
                (user\<lparr>password := Some (Bcrypt 12 (salt e) p), passwordConfirm := None,
                      passwordChangedAt := Some (clock e AtHook - 1000)\<rparr>) 200 req,
              findByIdAndUpdate
                (persist db
                   (user\<lparr>password := Some (Bcrypt 12 (salt e) p), passwordConfirm := None,
                         passwordChangedAt := Some (clock e AtHook - 1000)\<rparr>))
                (uid user)
                (\<lambda>s. s\<lparr>passwordChangedAt := Some (clock e AtChanged),
                        securityEvents :=
                          securityEvents user @
                          [\<lparr>ev_type = PASSWORD_CHANGE, ev_date = clock e AtEvent,
                            ev_ip = ip req\<rparr>]\<rparr>))"
    by blast
  from findById_SomeD [OF u] obtain s where
    i: "uid user = uid ru" and a: "active user = None" and
    s: "find (\<lambda>s. visible s \<and> uid s = uid ru) db = Some s"
    by blast
  from find_SomeD [OF s] have vs: "visible s" "uid s = uid ru" by simp_all
  have m: "visible (merged d s) = visible s" if "active d = None" for d
    using that by (simp add: merged_def visible_def)
  have n: "uid (merged d s) = uid d" for d
    by (simp add: merged_def)
  show ?thesis
    by (simp add: r findById_def findById_findByIdAndUpdate findById_persist a s i vs m n
        body_createSendToken project_def)
qed

lemma parseInt_seconds_le:
  assumes "0 \<le> t" and "t \<le> t'"
  shows "parseInt_seconds t \<le> t' div 1000"
  using assms by (simp add: parseInt_seconds_def zdiv_mono1)

text \<open>
  Claim C3 says that after a password change every session token issued before the change
  fails the check of \<^verbatim>\<open>protect\<close>.  The check compares whole seconds, so a token issued earlier
  in the second of the change is still let through: Alice changes her password at
  1000900 ms, and the token she was issued at 1000500 ms (\<^verbatim>\<open>iat\<close> 1000) passes
  \<^verbatim>\<open>protect\<close> afterwards.
\<close>

theorem updatePassword_keeps_same_second_token:
  "status (fst (updatePassword cfg0 (env_at 1000900) change_req [alice])) = 200 \<and>
   signToken cfg0 (env_at 1000500) 1 = Jwt (JWT_SECRET cfg0) 1 1000 7777000 \<and>
   granted (protect cfg0 (env_at 1002000) (bearer_req (signToken cfg0 (env_at 1000500) 1))
              (snd (updatePassword cfg0 (env_at 1000900) change_req [alice])))"
  by (simp add: updatePassword_def protect_def bearer_token_def jwt_verify_def
      changedPasswordAfter_def parseInt_seconds_def granted_def eval_defs)

text \<open>
  Claim C3, as the code has it: after an updatePassword that answered 200, \<^verbatim>\<open>protect\<close>
  refuses a valid, unexpired session token of that user exactly when its \<^verbatim>\<open>iat\<close>, in whole
  seconds, is less than the whole seconds of the time written to \<^verbatim>\<open>passwordChangedAt\<close>; a
  token issued earlier within that same second is still let through.  The fresh token that
  the operation returns is let through, as long as it has not expired, when the clock is
  past the epoch and does not run backwards between the write of \<^verbatim>\<open>passwordChangedAt\<close> and
  the signing of the token.
\<close>

theorem updatePassword_rejects_earlier_seconds:
  assumes ok: "status (fst (updatePassword cfg e req db)) = 200"
    and ru: "req_user req = Some ru"
    and old: "bearer_token req1 = Some (Jwt (JWT_SECRET cfg) (uid ru) issued expires)"
    and live1: "clock e1 AtVerify div 1000 < expires"
    and clk: "0 \<le> clock e AtChanged" "clock e AtChanged \<le> clock e AtSign"
    and new: "body (fst (updatePassword cfg e req db)) = Session tok payload"
      "bearer_token req2 = Some tok"
    and live2: "clock e2 AtVerify div 1000 < clock e AtSign div 1000 + JWT_EXPIRES_IN cfg"
  shows "protect cfg e1 req1 (snd (updatePassword cfg e req db)) =
           (if issued < parseInt_seconds (clock e AtChanged)
            then Done (json_error 401 ''User recently changed password. Please log in again.'')
            else Next (req1\<lparr>req_user :=
                        findById False (snd (updatePassword cfg e req db)) (uid ru)\<rparr>)) \<and>
         granted (protect cfg e2 req2 (snd (updatePassword cfg e req db)))"
proof -
  from updatePassword_changed_at [OF ok ru] obtain d payload' where
    d: "findById False (snd (updatePassword cfg e req db)) (uid ru) = Some d" and
    c: "passwordChangedAt d = Some (clock e AtChanged)" and
    b: "body (fst (updatePassword cfg e req db)) = Session (signToken cfg e (uid ru)) payload'"
    by blast
  have t: "tok = Jwt (JWT_SECRET cfg) (uid ru) (clock e AtSign div 1000)
                   (clock e AtSign div 1000 + JWT_EXPIRES_IN cfg)"
    using b new(1) by (simp add: signToken_def)
  have first: "protect cfg e1 req1 (snd (updatePassword cfg e req db)) =
           (if issued < parseInt_seconds (clock e AtChanged)
            then Done (json_error 401 ''User recently changed password. Please log in again.'')
            else Next (req1\<lparr>req_user :=
                        findById False (snd (updatePassword cfg e req db)) (uid ru)\<rparr>))"
    using protect_with_token [OF old live1 d] by (simp add: changedPasswordAfter_def c d)
  have "\<not> clock e AtSign div 1000 < parseInt_seconds (clock e AtChanged)"
    using parseInt_seconds_le [OF clk] by simp
  then have second: "granted (protect cfg e2 req2 (snd (updatePassword cfg e req db)))"
    using protect_with_token [OF new(2) [unfolded t] live2 d]
    by (simp add: changedPasswordAfter_def c granted_def)
  from first second show ?thesis by simp
qed

theorem updatePassword_rejects_earlier_seconds_witness:
  "status (fst (updatePassword cfg0 (env_at 1000900) change_req [alice])) = 200 \<and>
   protect cfg0 (env_at 1002000) (bearer_req (Jwt (JWT_SECRET cfg0) 1 999 7776999))
     (snd (updatePassword cfg0 (env_at 1000900) change_req [alice])) =
     Done (json_error 401 ''User recently changed password. Please log in again.'') \<and>
   granted (protect cfg0 (env_at 1002000) (bearer_req (signToken cfg0 (env_at 1000900) 1))
              (snd (updatePassword cfg0 (env_at 1000900) change_req [alice])))"
proof -
  let ?e = "env_at 1000900"
  let ?ru = "alice\<lparr>password := None, active := None\<rparr>"
  have ok: "status (fst (updatePassword cfg0 ?e change_req [alice])) = 200"
    by (simp add: updatePassword_def eval_defs)
  have ru: "req_user change_req = Some ?ru" by (simp add: change_req_def req0_def)
  have i: "uid ?ru = 1" by (simp add: alice_def)
  have old: "bearer_token (bearer_req (Jwt (JWT_SECRET cfg0) 1 999 7776999)) =
               Some (Jwt (JWT_SECRET cfg0) (uid ?ru) 999 7776999)"
    by (simp add: bearer_token_def bearer_req_def req0_def i)
  have live1: "clock (env_at 1002000) AtVerify div 1000 < 7776999" by (simp add: env_at_def)
  have clk: "0 \<le> clock ?e AtChanged" "clock ?e AtChanged \<le> clock ?e AtSign"
    by (simp_all add: env_at_def)
  from updatePassword_changed_at [OF ok ru] obtain payload where
    new1: "body (fst (updatePassword cfg0 ?e change_req [alice])) =
             Session (signToken cfg0 ?e 1) payload"
    by (auto simp: i)
  have new2: "bearer_token (bearer_req (signToken cfg0 ?e 1)) = Some (signToken cfg0 ?e 1)"
    by (simp add: bearer_token_def bearer_req_def req0_def signToken_def)
  have live2: "clock (env_at 1002000) AtVerify div 1000 <
                 clock ?e AtSign div 1000 + JWT_EXPIRES_IN cfg0"
    by (simp add: env_at_def cfg0_def)
  have p: "(999::int) < parseInt_seconds (clock ?e AtChanged)"
    by (simp add: parseInt_seconds_def env_at_def)
  show ?thesis
    using ok p
      updatePassword_rejects_earlier_seconds [OF ok ru old live1 clk new1 new2 live2]
    by simp
qed

section \<open>Resetting the password\<close>






end
